theory Spec2Isabelle
  imports Main "HOL-Library.Finite_Map"
begin

section \<open>Session and context management of the support bot\<close>

text \<open>
  A shallow embedding of the context manager (\<^verbatim>\<open>utils/context\<close>, class
  \<^verbatim>\<open>ContextManager\<close>) and of the prompt assembly of the generation service (\<^verbatim>\<open>gemini\<close>,
  methods \<^verbatim>\<open>prepareConversationHistory\<close> and \<^verbatim>\<open>buildMemoryContext\<close> of \<^verbatim>\<open>GeminiService\<close>).
  Line numbers are those of \<^verbatim>\<open>src/unnamed/part_001\<close>, which holds both modules.

  Conventions of the embedding:
  \<^item> JavaScript numbers that hold identifiers, counters and millisecond timestamps
    are \<open>int\<close> (the values are integers far below \<open>2^53\<close>, where the arithmetic
    of the source is exact);
  \<^item> JavaScript strings are \<open>string\<close>; the Cyrillic literals of the source are
    given by their UTF-8 bytes;
  \<^item> the object \<^verbatim>\<open>users: Record<number, UserSession>\<close> is a finite map;
  \<^item> an \<^verbatim>\<open>async\<close> method that mutates \<^verbatim>\<open>this.data\<close> and the file
    \<^verbatim>\<open>data/db.json\<close> is a function from the state before the call to the outcome and
    the state after it; a \<^verbatim>\<open>throw\<close> is the outcome \<open>Inl e\<close>;
  \<^item> what the environment decides during a call (the readings of \<^verbatim>\<open>Date.now()\<close>,
    whether a file-system call succeeds) is the argument \<open>env\<close>.
\<close>

subsection \<open>String literals of the source\<close>

definition utf8 :: "nat list \<Rightarrow> string" where
  "utf8 bs = map char_of bs"

definition SEED_CONTENT :: string where
  "SEED_CONTENT = utf8
    [208, 161, 208, 184, 209, 129, 209, 130, 208, 181, 208, 188, 208, 189, 208, 190,
     208, 181, 32, 209, 129, 208, 190, 208, 190, 208, 177, 209, 137, 208, 181, 208,
     189, 208, 184, 208, 181, 32, 208, 177, 209, 131, 208, 180, 208, 181, 209, 130,
     32, 208, 183, 208, 176, 208, 179, 209, 128, 209, 131, 208, 182, 208, 181, 208,
     189, 208, 190, 32, 208, 184, 208, 183, 32, 112, 114, 111, 109, 112, 116, 46,
     106, 115, 111, 110]"

definition DEFAULT_INTEREST_1 :: string where
  "DEFAULT_INTEREST_1 = utf8
    [209, 141, 208, 188, 208, 190, 209, 134, 208, 184, 208, 190, 208, 189, 208, 176,
     208, 187, 209, 140, 208, 189, 208, 176, 209, 143, 32, 208, 191, 208, 190, 208,
     180, 208, 180, 208, 181, 209, 128, 208, 182, 208, 186, 208, 176]"

definition DEFAULT_INTEREST_2 :: string where
  "DEFAULT_INTEREST_2 = utf8
    [209, 130, 209, 128, 208, 181, 208, 183, 208, 178, 208, 190, 209, 129, 209, 130,
     209, 140]"

definition DEFAULT_INTEREST_3 :: string where
  "DEFAULT_INTEREST_3 = utf8
    [208, 178, 208, 190, 209, 129, 209, 129, 209, 130, 208, 176, 208, 189, 208, 190,
     208, 178, 208, 187, 208, 181, 208, 189, 208, 184, 208, 181]"

definition DEFAULT_PREF_TONE :: string where
  "DEFAULT_PREF_TONE = utf8
    [208, 180, 208, 190, 208, 177, 209, 128, 208, 190, 208, 182, 208, 181, 208, 187,
     208, 176, 209, 130, 208, 181, 208, 187, 209, 140, 208, 189, 209, 139, 208, 185,
     44, 32, 209, 129, 208, 191, 208, 190, 208, 186, 208, 190, 208, 185, 208, 189,
     209, 139, 208, 185, 44, 32, 209, 131, 208, 178, 208, 181, 209, 128, 208, 181,
     208, 189, 208, 189, 209, 139, 208, 185, 44, 32, 209, 129, 208, 190, 209, 135,
     209, 131, 208, 178, 209, 129, 209, 130, 208, 178, 209, 131, 209, 142, 209, 137,
     208, 184, 208, 185]"

definition DEFAULT_PREF_STYLE :: string where
  "DEFAULT_PREF_STYLE = utf8
    [208, 189, 208, 176, 32, 209, 128, 209, 131, 209, 129, 209, 129, 208, 186, 208,
     190, 208, 188, 32, 209, 143, 208, 183, 209, 139, 208, 186, 208, 181, 44, 32,
     208, 191, 209, 128, 208, 190, 209, 129, 209, 130, 209, 139, 208, 188, 208, 184,
     32, 209, 129, 208, 187, 208, 190, 208, 178, 208, 176, 208, 188, 208, 184, 44,
     32, 209, 129, 32, 209, 130, 208, 181, 208, 191, 208, 187, 208, 190, 208, 188]"

definition DEFAULT_GOAL_1 :: string where
  "DEFAULT_GOAL_1 = utf8
    [208, 191, 208, 190, 208, 180, 208, 180, 208, 181, 209, 128, 208, 182, 208, 176,
     208, 189, 208, 184, 208, 181, 32, 209, 130, 209, 128, 208, 181, 208, 183, 208,
     178, 208, 190, 209, 129, 209, 130, 208, 184]"

definition DEFAULT_GOAL_2 :: string where
  "DEFAULT_GOAL_2 = utf8
    [209, 141, 208, 188, 208, 190, 209, 134, 208, 184, 208, 190, 208, 189, 208, 176,
     208, 187, 209, 140, 208, 189, 208, 190, 208, 181, 32, 208, 178, 208, 190, 209,
     129, 209, 129, 209, 130, 208, 176, 208, 189, 208, 190, 208, 178, 208, 187, 208,
     181, 208, 189, 208, 184, 208, 181]"

definition DEFAULT_GOAL_3 :: string where
  "DEFAULT_GOAL_3 = utf8
    [209, 131, 208, 191, 209, 128, 208, 176, 208, 178, 208, 187, 208, 181, 208, 189,
     208, 184, 208, 181, 32, 208, 180, 208, 181, 208, 191, 209, 128, 208, 181, 209,
     129, 209, 129, 208, 184, 208, 181, 208, 185]"

subsection \<open>Data model (context.ts, lines 6-37)\<close>

datatype Role = User | Assistant | System

datatype MessageType = TextMessage | ImageMessage | VoiceMessage

record ChatMessage =
  role :: Role
  content :: string
  timestamp :: int
  messageType :: "MessageType option"

text \<open>
  A value of \<^verbatim>\<open>preferences: Record<string, any>\<close>: the scalars that the code
  stores (strings, the boolean \<^verbatim>\<open>crisis_support\<close>) and integers. The record is an
  association list in insertion order, the order in which \<^verbatim>\<open>Object.entries\<close> lists
  string keys.
\<close>

datatype PrefValue = PString string | PBool bool | PNumber int

record UserMemory =
  interests :: "string list"
  preferences :: "(string \<times> PrefValue) list"
  goals :: "string list"
  communicationStyle :: string

record UserSession =
  chatId :: int
  userId :: int
  username :: "string option"
  firstName :: "string option"
  lastName :: "string option"
  history :: "ChatMessage list"
  userMemory :: UserMemory
  createdAt :: int
  lastActivity :: int

record Statistics =
  totalUsers :: int
  totalMessages :: int
  lastReset :: int

record DatabaseSchema =
  users :: "(int, UserSession) fmap"
  statistics :: Statistics

text \<open>
  \<^verbatim>\<open>Partial<UserSession['userMemory']>\<close>: every property may be absent (\<open>None\<close>).
\<close>

record PartialUserMemory =
  p_interests :: "string list option"
  p_preferences :: "(string \<times> PrefValue) list option"
  p_goals :: "string list option"
  p_communicationStyle :: "string option"

text \<open>The properties of \<^verbatim>\<open>userInfo\<close> (the sender of a message) that the code reads.\<close>

record UserInfo =
  info_username :: "string option"
  info_first_name :: "string option"
  info_last_name :: "string option"

text \<open>The section \<^verbatim>\<open>bot\<close> of the configuration (config.ts, lines 16-23).\<close>

record BotSettings =
  maxHistoryLength :: int
  maxResponseLength :: int
  enableImageRecognition :: bool
  enableVoiceRecognition :: bool
  enableMarkdown :: bool
  enableUserMemory :: bool

subsection \<open>State and environment\<close>

text \<open>
  The fields \<^verbatim>\<open>data\<close> and \<^verbatim>\<open>isInitialized\<close> of the manager, together with the file
  at \<^verbatim>\<open>dbPath\<close>: \<open>dbFile\<close> is the document that the file holds (\<open>None\<close> when
  the file is absent or does not parse), \<open>writeCalls\<close> counts the calls of
  \<^verbatim>\<open>fs.writeFile\<close>. A write that fails leaves the document of the file as it was.
\<close>

record State =
  data :: "DatabaseSchema option"
  isInitialized :: bool
  dbFile :: "DatabaseSchema option"
  writeCalls :: nat

text \<open>
  \<open>clock env i\<close> is the value of the \<open>i\<close>-th evaluation of \<^verbatim>\<open>Date.now()\<close> during
  the call (counted from 0); \<open>write_ok\<close> and \<open>mkdir_ok\<close> say whether \<^verbatim>\<open>fs.writeFile\<close> and
  \<^verbatim>\<open>fs.mkdir\<close> succeed.
\<close>

record Env =
  clock :: "nat \<Rightarrow> int"
  write_ok :: bool
  mkdir_ok :: bool

datatype Error = NotInitialized | UserSessionNotFound | WriteFailed | MkdirFailed

subsection \<open>Array helpers\<close>

text \<open>
  \<^verbatim>\<open>Array.prototype.slice(start)\<close> with one argument: a negative \<open>start\<close> counts
  from the end, and both directions are clamped to the array.
\<close>

definition slice :: "int \<Rightarrow> 'a list \<Rightarrow> 'a list" where
  "slice start xs =
     (let len = int (length xs);
          k = (if start < 0 then max (len + start) 0 else min start len)
      in drop (nat k) xs)"

text \<open>
  \<^verbatim>\<open>Object.entries\<close> of the \<open>users\<close> object, keys in ascending order (the order
  of JavaScript for array-index keys). The sweep, the only reader, deletes the keys it
  collects, so the order has no effect on its result.
\<close>

definition entries :: "(int, 'v) fmap \<Rightarrow> (int \<times> 'v) list" where
  "entries m =
     concat (map (\<lambda>k. case fmlookup m k of None \<Rightarrow> [] | Some v \<Rightarrow> [(k, v)])
                 (sorted_list_of_fset (fmdom m)))"

subsection \<open>ContextManager (context.ts, lines 39-228)\<close>

text \<open>\<^verbatim>\<open>save\<close>, lines 220-227: the whole document is written; a failure is rethrown.\<close>

definition save :: "Env \<Rightarrow> State \<Rightarrow> (Error + unit) \<times> State" where
  "save env st =
     (if write_ok env
      then (Inr (), st\<lparr>dbFile := data st, writeCalls := Suc (writeCalls st)\<rparr>)
      else (Inl WriteFailed, st\<lparr>writeCalls := Suc (writeCalls st)\<rparr>))"

text \<open>\<^verbatim>\<open>initialize\<close>, lines 48-76.\<close>

definition emptyDatabase :: "int \<Rightarrow> DatabaseSchema" where
  "emptyDatabase now =
     \<lparr>users = fmempty,
      statistics = \<lparr>totalUsers = 0, totalMessages = 0, lastReset = now\<rparr>\<rparr>"

definition initialize :: "Env \<Rightarrow> State \<Rightarrow> (Error + unit) \<times> State" where
  "initialize env st =
     (if \<not> mkdir_ok env then (Inl MkdirFailed, st)
      else case dbFile st of
        Some d \<Rightarrow> (Inr (), st\<lparr>data := Some d, isInitialized := True\<rparr>)
      | None \<Rightarrow>
          (case save env (st\<lparr>data := Some (emptyDatabase (clock env 0))\<rparr>) of
             (Inl e, st') \<Rightarrow> (Inl e, st')
           | (Inr _, st') \<Rightarrow> (Inr (), st'\<lparr>isInitialized := True\<rparr>)))"

text \<open>
  \<^verbatim>\<open>ensureInitialized\<close>, lines 78-82; on success the model hands over the non-null
  \<^verbatim>\<open>this.data\<close>.
\<close>

definition ensureInitialized :: "State \<Rightarrow> Error + DatabaseSchema" where
  "ensureInitialized st =
     (case data st of
        None \<Rightarrow> Inl NotInitialized
      | Some d \<Rightarrow> if \<not> isInitialized st then Inl NotInitialized else Inr d)"

text \<open>The seeded system message and the session of a new user, lines 88-113.\<close>

definition seedMessage :: "int \<Rightarrow> ChatMessage" where
  "seedMessage now =
     \<lparr>role = System, content = SEED_CONTENT, timestamp = now, messageType = None\<rparr>"

definition defaultMemory :: UserMemory where
  "defaultMemory =
     \<lparr>interests = [DEFAULT_INTEREST_1, DEFAULT_INTEREST_2, DEFAULT_INTEREST_3],
      preferences = [(''tone'', PString DEFAULT_PREF_TONE),
                     (''style'', PString DEFAULT_PREF_STYLE),
                     (''crisis_support'', PBool True)],
      goals = [DEFAULT_GOAL_1, DEFAULT_GOAL_2, DEFAULT_GOAL_3],
      communicationStyle = ''therapeutic_support''\<rparr>"

definition newSession :: "Env \<Rightarrow> int \<Rightarrow> int \<Rightarrow> UserInfo option \<Rightarrow> UserSession" where
  "newSession env chat uid userInfo =
     \<lparr>chatId = chat,
      userId = uid,
      username = Option.bind userInfo info_username,
      firstName = Option.bind userInfo info_first_name,
      lastName = Option.bind userInfo info_last_name,
      history = [seedMessage (clock env 0)],
      userMemory = defaultMemory,
      createdAt = clock env 1,
      lastActivity = clock env 2\<rparr>"

text \<open>
  \<^verbatim>\<open>getUserSession\<close>, lines 84-127. The value returned is \<^verbatim>\<open>this.data.users[userId]\<close> as it
  is after the branch.
\<close>

definition getUserSession ::
  "Env \<Rightarrow> int \<Rightarrow> int \<Rightarrow> UserInfo option \<Rightarrow> State \<Rightarrow> (Error + UserSession) \<times> State" where
  "getUserSession env chat uid userInfo st =
     (case ensureInitialized st of
        Inl e \<Rightarrow> (Inl e, st)
      | Inr d \<Rightarrow>
          (case fmlookup (users d) uid of
             None \<Rightarrow>
               (let s = newSession env chat uid userInfo;
                    d' = d\<lparr>users := fmupd uid s (users d),
                           statistics := (statistics d)
                             \<lparr>totalUsers := totalUsers (statistics d) + 1\<rparr>\<rparr>
                in case save env (st\<lparr>data := Some d'\<rparr>) of
                     (Inl e, st') \<Rightarrow> (Inl e, st')
                   | (Inr _, st') \<Rightarrow> (Inr s, st'))
           | Some u \<Rightarrow>
               (let u' = u\<lparr>lastActivity := clock env 0\<rparr>;
                    d' = d\<lparr>users := fmupd uid u' (users d)\<rparr>
                in case save env (st\<lparr>data := Some d'\<rparr>) of
                     (Inl e, st') \<Rightarrow> (Inl e, st')
                   | (Inr _, st') \<Rightarrow> (Inr u', st'))))"

text \<open>
  The trimming of \<^verbatim>\<open>addMessage\<close>, lines 140-146, on the history that already holds the
  pushed message: \<^verbatim>\<open>find\<close> returns the first message whose role is \<^verbatim>\<open>system\<close>, and
  \<^verbatim>\<open>slice(-maxHistoryLength + 1)\<close> the tail.
\<close>

definition trimHistory :: "int \<Rightarrow> ChatMessage list \<Rightarrow> ChatMessage list" where
  "trimHistory maxLen h =
     (if int (length h) > maxLen
      then (let systemMessage = find (\<lambda>msg. role msg = System) h;
                recentMessages = slice (- maxLen + 1) h
            in case systemMessage of
                 Some s \<Rightarrow> s # recentMessages
               | None \<Rightarrow> recentMessages)
      else h)"

text \<open>\<^verbatim>\<open>addMessage\<close>, lines 129-150.\<close>

definition addMessage ::
  "BotSettings \<Rightarrow> Env \<Rightarrow> int \<Rightarrow> ChatMessage \<Rightarrow> State \<Rightarrow> (Error + unit) \<times> State" where
  "addMessage cfg env uid message st =
     (case ensureInitialized st of
        Inl e \<Rightarrow> (Inl e, st)
      | Inr d \<Rightarrow>
          (case fmlookup (users d) uid of
             None \<Rightarrow> (Inl UserSessionNotFound, st)
           | Some user \<Rightarrow>
               (let user' = user\<lparr>history := trimHistory (maxHistoryLength cfg)
                                               (history user @ [message]),
                                 lastActivity := clock env 0\<rparr>;
                    d' = d\<lparr>users := fmupd uid user' (users d),
                           statistics := (statistics d)
                             \<lparr>totalMessages := totalMessages (statistics d) + 1\<rparr>\<rparr>
                in save env (st\<lparr>data := Some d'\<rparr>))))"

text \<open>\<^verbatim>\<open>getHistory\<close>, lines 152-157.\<close>

definition getHistory :: "int \<Rightarrow> State \<Rightarrow> (Error + ChatMessage list) \<times> State" where
  "getHistory uid st =
     (case ensureInitialized st of
        Inl e \<Rightarrow> (Inl e, st)
      | Inr d \<Rightarrow>
          (case fmlookup (users d) uid of
             Some user \<Rightarrow> (Inr (history user), st)
           | None \<Rightarrow> (Inr [], st)))"

text \<open>\<^verbatim>\<open>clearHistory\<close>, lines 159-175.\<close>

definition clearHistory :: "Env \<Rightarrow> int \<Rightarrow> State \<Rightarrow> (Error + unit) \<times> State" where
  "clearHistory env uid st =
     (case ensureInitialized st of
        Inl e \<Rightarrow> (Inl e, st)
      | Inr d \<Rightarrow>
          (case fmlookup (users d) uid of
             Some user \<Rightarrow>
               (let user' = user\<lparr>history := [seedMessage (clock env 0)]\<rparr>;
                    d' = d\<lparr>users := fmupd uid user' (users d)\<rparr>
                in save env (st\<lparr>data := Some d'\<rparr>))
           | None \<Rightarrow> (Inr (), st)))"

text \<open>
  The object spread \<^verbatim>\<open>{ ...user.userMemory, ...memory }\<close> of line 182: a property of
  \<open>memory\<close> overrides the one of the profile, an absent one leaves it.
\<close>

definition mergeMemory :: "UserMemory \<Rightarrow> PartialUserMemory \<Rightarrow> UserMemory" where
  "mergeMemory m p =
     \<lparr>interests = (case p_interests p of Some v \<Rightarrow> v | None \<Rightarrow> interests m),
      preferences = (case p_preferences p of Some v \<Rightarrow> v | None \<Rightarrow> preferences m),
      goals = (case p_goals p of Some v \<Rightarrow> v | None \<Rightarrow> goals m),
      communicationStyle =
        (case p_communicationStyle p of Some v \<Rightarrow> v | None \<Rightarrow> communicationStyle m)\<rparr>"

text \<open>\<^verbatim>\<open>updateUserMemory\<close>, lines 177-187.\<close>

definition updateUserMemory ::
  "Env \<Rightarrow> int \<Rightarrow> PartialUserMemory \<Rightarrow> State \<Rightarrow> (Error + unit) \<times> State" where
  "updateUserMemory env uid memory st =
     (case ensureInitialized st of
        Inl e \<Rightarrow> (Inl e, st)
      | Inr d \<Rightarrow>
          (case fmlookup (users d) uid of
             Some user \<Rightarrow>
               (let user' = user\<lparr>userMemory := mergeMemory (userMemory user) memory\<rparr>;
                    d' = d\<lparr>users := fmupd uid user' (users d)\<rparr>
                in save env (st\<lparr>data := Some d'\<rparr>))
           | None \<Rightarrow> (Inr (), st)))"

text \<open>\<^verbatim>\<open>getUserMemory\<close>, lines 189-194; \<^verbatim>\<open>null\<close> is \<open>None\<close>.\<close>

definition getUserMemory :: "int \<Rightarrow> State \<Rightarrow> (Error + UserMemory option) \<times> State" where
  "getUserMemory uid st =
     (case ensureInitialized st of
        Inl e \<Rightarrow> (Inl e, st)
      | Inr d \<Rightarrow>
          (case fmlookup (users d) uid of
             Some user \<Rightarrow> (Inr (Some (userMemory user)), st)
           | None \<Rightarrow> (Inr None, st)))"

text \<open>\<^verbatim>\<open>getStatistics\<close>, lines 196-200.\<close>

definition getStatistics :: "State \<Rightarrow> (Error + Statistics) \<times> State" where
  "getStatistics st =
     (case ensureInitialized st of
        Inl e \<Rightarrow> (Inl e, st)
      | Inr d \<Rightarrow> (Inr (statistics d), st))"

text \<open>
  \<^verbatim>\<open>cleanupInactiveUsers\<close>, lines 202-218. The loop deletes the collected keys one by
  one; the document is saved only when a key was collected.
\<close>

definition inactiveUserIds :: "int \<Rightarrow> (int, UserSession) fmap \<Rightarrow> int list" where
  "inactiveUserIds cutoffTime us =
     map fst (filter (\<lambda>(_, user). lastActivity user < cutoffTime) (entries us))"

definition cleanupInactiveUsers :: "Env \<Rightarrow> int \<Rightarrow> State \<Rightarrow> (Error + unit) \<times> State" where
  "cleanupInactiveUsers env daysInactive st =
     (case ensureInitialized st of
        Inl e \<Rightarrow> (Inl e, st)
      | Inr d \<Rightarrow>
          (let cutoffTime = clock env 0 - daysInactive * 24 * 60 * 60 * 1000;
               ids = inactiveUserIds cutoffTime (users d);
               st' = st\<lparr>data := Some (d\<lparr>users := fold fmdrop ids (users d)\<rparr>)\<rparr>
           in if length ids > 0 then save env st' else (Inr (), st')))"

subsection \<open>Prompt assembly (gemini.ts, lines 355-429)\<close>













text \<open>
  An element of the array that is returned: \<^verbatim>\<open>{ role, parts: [{ text }] }\<close>, with the
  property \<^verbatim>\<open>text\<close> as \<open>partText\<close> and the property \<^verbatim>\<open>role\<close> as \<open>turnRole\<close>.
\<close>

datatype GeminiRole = RoleUser | RoleModel

record Part =
  partText :: string

record Content =
  turnRole :: GeminiRole
  parts :: "Part list"







text \<open>The loop of lines 393-401: system messages are skipped, the other roles are mapped.\<close>

fun conversationTurns :: "ChatMessage list \<Rightarrow> Content list" where
  "conversationTurns [] = []"
| "conversationTurns (message # messages) =
     (if role message = System then conversationTurns messages
      else \<lparr>turnRole = (if role message = User then RoleUser else RoleModel),
            parts = [\<lparr>partText = content message\<rparr>]\<rparr> # conversationTurns messages)"


subsection \<open>Observations and sample values\<close>

text \<open>The session that the store holds for a user, if any.\<close>

definition sessionOf :: "State \<Rightarrow> int \<Rightarrow> UserSession option" where
  "sessionOf st uid = (case data st of None \<Rightarrow> None | Some d \<Rightarrow> fmlookup (users d) uid)"

text \<open>The last \<open>n\<close> elements of a list, in their order.\<close>

definition takeLast :: "nat \<Rightarrow> 'a list \<Rightarrow> 'a list" where
  "takeLast n xs = drop (length xs - n) xs"

text \<open>The predicate of \<^verbatim>\<open>find\<close> in \<^verbatim>\<open>addMessage\<close>.\<close>

definition isSystem :: "ChatMessage \<Rightarrow> bool" where
  "isSystem m = (role m = System)"

text \<open>
  The retention policy in the words of the specification, for comparison with
  \<open>trimHistory\<close>: when the history is longer than \<open>H\<close>, the most recent message
  tagged \<^verbatim>\<open>system\<close> (if any) followed by the most recent \<open>H - 1\<close> messages.
\<close>

definition retentionPolicy_spec :: "int \<Rightarrow> ChatMessage list \<Rightarrow> ChatMessage list" where
  "retentionPolicy_spec H h =
     (if int (length h) > H
      then (case find isSystem (rev h) of Some s \<Rightarrow> [s] | None \<Rightarrow> [])
           @ takeLast (nat (H - 1)) h
      else h)"

text \<open>
  Sample values: a message, a session, an initialised store, an environment in which
  every write succeeds, a configuration.
\<close>

definition msg :: "Role \<Rightarrow> string \<Rightarrow> ChatMessage" where
  "msg r c = \<lparr>role = r, content = c, timestamp = 0, messageType = None\<rparr>"

definition sessionWith :: "int \<Rightarrow> ChatMessage list \<Rightarrow> int \<Rightarrow> UserSession" where
  "sessionWith uid h t =
     \<lparr>chatId = uid, userId = uid, username = None, firstName = None, lastName = None,
      history = h, userMemory = defaultMemory, createdAt = 0, lastActivity = t\<rparr>"

definition stateWith :: "(int \<times> UserSession) list \<Rightarrow> State" where
  "stateWith us =
     \<lparr>data = Some \<lparr>users = fmap_of_list us,
                   statistics = \<lparr>totalUsers = 0, totalMessages = 0, lastReset = 0\<rparr>\<rparr>,
      isInitialized = True, dbFile = None, writeCalls = 0\<rparr>"

definition envAt :: "int \<Rightarrow> Env" where
  "envAt t = \<lparr>clock = (\<lambda>_. t), write_ok = True, mkdir_ok = True\<rparr>"

definition cfgH :: "int \<Rightarrow> BotSettings" where
  "cfgH H =
     \<lparr>maxHistoryLength = H, maxResponseLength = 2000, enableImageRecognition = False,
      enableVoiceRecognition = False, enableMarkdown = True, enableUserMemory = True\<rparr>"

text \<open>A sequence of calls of \<^verbatim>\<open>addMessage\<close> for one user, each with its own environment.\<close>

fun addMessages :: "BotSettings \<Rightarrow> int \<Rightarrow> (Env \<times> ChatMessage) list \<Rightarrow> State \<Rightarrow> State" where
  "addMessages cfg uid [] st = st"
| "addMessages cfg uid ((env, m) # ms) st =
     addMessages cfg uid ms (snd (addMessage cfg env uid m st))"

text \<open>A store with two sessions, last active at times 100 and 5000000000.\<close>

definition twoSessions :: State where
  "twoSessions = stateWith [(7, sessionWith 7 [] 100), (8, sessionWith 8 [] 5000000000)]"

subsection \<open>Runs of the manager\<close>

text \<open>The public methods of the manager as commands, each with its arguments.\<close>

datatype Command =
    GetUserSession int int "UserInfo option"
  | AddMessage int ChatMessage
  | GetHistory int
  | ClearHistory int
  | UpdateUserMemory int PartialUserMemory
  | GetUserMemory int
  | GetStatistics
  | CleanupInactiveUsers int

text \<open>The outcome of a call without its value: the error thrown, if any, and the state.\<close>

definition thrown :: "(Error + 'a) \<times> State \<Rightarrow> Error option \<times> State" where
  "thrown r = (case fst r of Inl e \<Rightarrow> Some e | Inr _ \<Rightarrow> None, snd r)"

fun step :: "BotSettings \<Rightarrow> Env \<Rightarrow> Command \<Rightarrow> State \<Rightarrow> Error option \<times> State" where
  "step cfg env (GetUserSession chat uid userInfo) st =
     thrown (getUserSession env chat uid userInfo st)"
| "step cfg env (AddMessage uid m) st = thrown (addMessage cfg env uid m st)"
| "step cfg env (GetHistory uid) st = thrown (getHistory uid st)"
| "step cfg env (ClearHistory uid) st = thrown (clearHistory env uid st)"
| "step cfg env (UpdateUserMemory uid p) st = thrown (updateUserMemory env uid p st)"
| "step cfg env (GetUserMemory uid) st = thrown (getUserMemory uid st)"
| "step cfg env GetStatistics st = thrown (getStatistics st)"
| "step cfg env (CleanupInactiveUsers days) st = thrown (cleanupInactiveUsers env days st)"

text \<open>A sequence of calls, each under its own environment.\<close>

fun run :: "BotSettings \<Rightarrow> (Env \<times> Command) list \<Rightarrow> State \<Rightarrow> State" where
  "run cfg [] st = st"
| "run cfg ((env, c) # ops) st = run cfg ops (snd (step cfg env c st))"

text \<open>The keys of \<open>users\<close> and the two counters of a state.\<close>

definition userIds :: "State \<Rightarrow> int fset" where
  "userIds st = (case data st of None \<Rightarrow> {||} | Some d \<Rightarrow> fmdom (users d))"

definition totalUsersOf :: "State \<Rightarrow> int" where
  "totalUsersOf st = (case data st of None \<Rightarrow> 0 | Some d \<Rightarrow> totalUsers (statistics d))"

definition totalMessagesOf :: "State \<Rightarrow> int" where
  "totalMessagesOf st = (case data st of None \<Rightarrow> 0 | Some d \<Rightarrow> totalMessages (statistics d))"

text \<open>
  What one call adds to the history of the store: the number of keys of \<open>users\<close>
  that are new after it (sessions created), whether it is an \<^verbatim>\<open>addMessage\<close> that
  returned normally, and whether it is an \<^verbatim>\<open>addMessage\<close> whose write of the file failed
  after the message was stored in memory.
\<close>

definition created :: "BotSettings \<Rightarrow> Env \<Rightarrow> Command \<Rightarrow> State \<Rightarrow> nat" where
  "created cfg env c st = fcard (userIds (snd (step cfg env c st)) |-| userIds st)"

fun isAddMessage :: "Command \<Rightarrow> bool" where
  "isAddMessage (AddMessage uid m) = True"
| "isAddMessage c = False"

definition appended :: "BotSettings \<Rightarrow> Env \<Rightarrow> Command \<Rightarrow> State \<Rightarrow> nat" where
  "appended cfg env c st =
     (if isAddMessage c \<and> fst (step cfg env c st) = None then 1 else 0)"

definition appendedUnsaved :: "BotSettings \<Rightarrow> Env \<Rightarrow> Command \<Rightarrow> State \<Rightarrow> nat" where
  "appendedUnsaved cfg env c st =
     (if isAddMessage c \<and> fst (step cfg env c st) = Some WriteFailed then 1 else 0)"

text \<open>The sum of such a count over a run.\<close>

fun countRun ::
  "(BotSettings \<Rightarrow> Env \<Rightarrow> Command \<Rightarrow> State \<Rightarrow> nat) \<Rightarrow> BotSettings \<Rightarrow> (Env \<times> Command) list
     \<Rightarrow> State \<Rightarrow> nat" where
  "countRun f cfg [] st = 0"
| "countRun f cfg ((env, c) # ops) st =
     f cfg env c st + countRun f cfg ops (snd (step cfg env c st))"

text \<open>The manager as constructed (lines 41-42), with no file on disk.\<close>

definition freshManager :: State where
  "freshManager = \<lparr>data = None, isInitialized = False, dbFile = None, writeCalls = 0\<rparr>"

text \<open>
  A sample run: on a fresh store with user 7, an append for user 7, an append for the
  unknown user 8, a sweep and a new contact of user 7.
\<close>

definition sampleState :: State where
  "sampleState =
     snd (getUserSession (envAt 100) 7 7 None (snd (initialize (envAt 0) freshManager)))"

definition sampleRun :: "(Env \<times> Command) list" where
  "sampleRun =
     [(envAt 200, AddMessage 7 (msg User ''hi'')),
      (envAt 200, AddMessage 8 (msg User ''hi'')),
      (envAt 5000000000, CleanupInactiveUsers 30),
      (envAt 5000000100, GetUserSession 7 7 None)]"



subsection \<open>The service in the state of the process\<close>





section \<open>Properties\<close>

subsection \<open>Trimming of the history\<close>

lemmas example_defs = msg_def sessionWith_def stateWith_def envAt_def cfgH_def

lemma slice_negative:
  "start < 0 \<Longrightarrow> - start \<le> int (length xs) \<Longrightarrow>
     slice start xs = takeLast (nat (- start)) xs"
proof -
  assume a: "start < 0" "- start \<le> int (length xs)"
  then have "nat (int (length xs) + start) = length xs - nat (- start)"
    by arith
  with a show ?thesis
    by (simp add: slice_def takeLast_def Let_def)
qed

lemma slice_is_drop: "\<exists>k. slice start xs = drop k xs"
  by (auto simp: slice_def Let_def)

lemma find_drop_None:
  "find P h = None \<Longrightarrow> find P (drop k h) = None"
  by (auto simp: find_None_iff dest: in_set_dropD)

lemma trimHistory_long:
  assumes "2 \<le> H" and "H < int (length h)"
  shows "trimHistory H h =
     (case find isSystem h of Some s \<Rightarrow> [s] | None \<Rightarrow> []) @ takeLast (nat (H - 1)) h"
proof -
  have "slice (- H + 1) h = takeLast (nat (H - 1)) h"
    using assms slice_negative [of "- H + 1" h] by simp
  moreover have "(\<lambda>msg. role msg = System) = isSystem"
    by (simp add: isSystem_def fun_eq_iff)
  ultimately show ?thesis
    using assms by (simp add: trimHistory_def Let_def split: option.splits)
qed

lemma find_trimHistory:
  "find isSystem (trimHistory H h) = find isSystem h"
proof -
  have eq: "(\<lambda>msg. role msg = System) = isSystem"
    by (simp add: isSystem_def fun_eq_iff)
  obtain k where k: "slice (1 - H) h = drop k h"
    using slice_is_drop by blast
  show ?thesis
  proof (cases "find isSystem h")
    case None
    then show ?thesis
      by (simp add: trimHistory_def Let_def eq k find_drop_None)
  next
    case (Some s)
    then have "isSystem s" by (auto simp: find_Some_iff)
    with Some show ?thesis
      by (simp add: trimHistory_def Let_def eq)
  qed
qed

lemma length_trimHistory:
  assumes "2 \<le> H"
  shows "int (length (trimHistory H h)) \<le> H"
proof (cases "H < int (length h)")
  case True
  then show ?thesis
    using assms by (simp add: trimHistory_long takeLast_def split: option.splits)
next
  case False
  then show ?thesis by (simp add: trimHistory_def)
qed

lemma addMessage_session:
  assumes "ensureInitialized st = Inr d" and "fmlookup (users d) uid = Some user"
  shows "sessionOf (snd (addMessage cfg env uid m st)) uid =
           Some (user\<lparr>history := trimHistory (maxHistoryLength cfg) (history user @ [m]),
                      lastActivity := clock env 0\<rparr>)"
  using assms by (simp add: addMessage_def save_def sessionOf_def Let_def)

text \<open>
  C1 (as amended). When the history with the pushed message is longer than the configured
  maximum \<open>H\<close> and \<open>H \<ge> 2\<close>, \<^verbatim>\<open>addMessage\<close> leaves the first message whose role is
  \<^verbatim>\<open>system\<close> (if the history has one) followed by the last \<open>H - 1\<close> messages in their
  order; the first system message of the history stays its first system message. With
  \<open>H = 3\<close> and a session whose history is empty, appending system "seed", user "hi",
  assistant "hello", user "bye" gives system "seed", assistant "hello", user "bye".
\<close>

theorem addMessage_retention:
  assumes "ensureInitialized st = Inr d"
    and "fmlookup (users d) uid = Some user"
    and "2 \<le> maxHistoryLength cfg"
    and "maxHistoryLength cfg < int (length (history user @ [m]))"
  shows "(\<exists>user'. sessionOf (snd (addMessage cfg env uid m st)) uid = Some user' \<and>
            history user' =
              (case find isSystem (history user @ [m]) of Some s \<Rightarrow> [s] | None \<Rightarrow> [])
              @ takeLast (nat (maxHistoryLength cfg - 1)) (history user @ [m]) \<and>
            find isSystem (history user') = find isSystem (history user @ [m]))
         \<and> map_option history
              (sessionOf
                 (addMessages (cfgH 3) 7
                    [(envAt 1, msg System ''seed''), (envAt 2, msg User ''hi''),
                     (envAt 3, msg Assistant ''hello''), (envAt 4, msg User ''bye'')]
                    (stateWith [(7, sessionWith 7 [] 0)])) 7)
             = Some [msg System ''seed'', msg Assistant ''hello'', msg User ''bye'']"
proof
  let ?h = "history user @ [m]"
  let ?u = "user\<lparr>history := trimHistory (maxHistoryLength cfg) ?h,
                   lastActivity := clock env 0\<rparr>"
  have "sessionOf (snd (addMessage cfg env uid m st)) uid = Some ?u"
    using assms(1,2) by (rule addMessage_session)
  moreover have "history ?u =
      (case find isSystem ?h of Some s \<Rightarrow> [s] | None \<Rightarrow> [])
      @ takeLast (nat (maxHistoryLength cfg - 1)) ?h"
    using trimHistory_long [OF assms(3,4)] by simp
  moreover have "find isSystem (history ?u) = find isSystem ?h"
    by (simp add: find_trimHistory)
  ultimately show "\<exists>user'. sessionOf (snd (addMessage cfg env uid m st)) uid = Some user' \<and>
            history user' =
              (case find isSystem ?h of Some s \<Rightarrow> [s] | None \<Rightarrow> [])
              @ takeLast (nat (maxHistoryLength cfg - 1)) ?h \<and>
            find isSystem (history user') = find isSystem ?h"
    by blast
next
  show "map_option history
              (sessionOf
                 (addMessages (cfgH 3) 7
                    [(envAt 1, msg System ''seed''), (envAt 2, msg User ''hi''),
                     (envAt 3, msg Assistant ''hello''), (envAt 4, msg User ''bye'')]
                    (stateWith [(7, sessionWith 7 [] 0)])) 7)
             = Some [msg System ''seed'', msg Assistant ''hello'', msg User ''bye'']"
    by (simp add: example_defs addMessage_def ensureInitialized_def save_def sessionOf_def
          trimHistory_def slice_def Let_def)
qed

text \<open>An instance: \<open>H = 3\<close>, a history of three messages and a fourth one appended.\<close>

theorem addMessage_retention_witness:
  "ensureInitialized (stateWith [(7, sessionWith 7 [msg System ''a'', msg User ''b'', msg User ''c''] 0)])
     = Inr \<lparr>users = fmap_of_list [(7, sessionWith 7 [msg System ''a'', msg User ''b'', msg User ''c''] 0)],
            statistics = \<lparr>totalUsers = 0, totalMessages = 0, lastReset = 0\<rparr>\<rparr>
   \<and> 2 \<le> maxHistoryLength (cfgH 3)
   \<and> maxHistoryLength (cfgH 3) < int (length ([msg System ''a'', msg User ''b'', msg User ''c''] @ [msg User ''d'']))
   \<and> (\<exists>user'. sessionOf (snd (addMessage (cfgH 3) (envAt 9) 7 (msg User ''d'')
          (stateWith [(7, sessionWith 7 [msg System ''a'', msg User ''b'', msg User ''c''] 0)]))) 7 = Some user'
        \<and> history user' = [msg System ''a'', msg User ''c'', msg User ''d''])"
proof -
  let ?h = "[msg System ''a'', msg User ''b'', msg User ''c'']"
  let ?d = "\<lparr>users = fmap_of_list [(7, sessionWith 7 ?h 0)],
             statistics = \<lparr>totalUsers = 0, totalMessages = 0, lastReset = 0\<rparr>\<rparr>"
  have h1: "ensureInitialized (stateWith [(7, sessionWith 7 ?h 0)]) = Inr ?d"
    by (simp add: ensureInitialized_def stateWith_def)
  have h2: "fmlookup (users ?d) 7 = Some (sessionWith 7 ?h 0)"
    by simp
  have h3: "2 \<le> maxHistoryLength (cfgH 3)"
    by (simp add: cfgH_def)
  have h4: "maxHistoryLength (cfgH 3) < int (length (history (sessionWith 7 ?h 0) @ [msg User ''d'']))"
    by (simp add: cfgH_def sessionWith_def)
  have "\<exists>user'. sessionOf (snd (addMessage (cfgH 3) (envAt 9) 7 (msg User ''d'')
            (stateWith [(7, sessionWith 7 ?h 0)]))) 7 = Some user'
          \<and> history user' = [msg System ''a'', msg User ''c'', msg User ''d'']"
    using addMessage_retention [OF h1 h2 h3 h4, of "envAt 9", THEN conjunct1]
    by (auto simp: sessionWith_def cfgH_def msg_def takeLast_def isSystem_def)
  with h1 h3 show ?thesis
    by (simp add: cfgH_def)
qed

text \<open>
  The policy as the specification words it keeps the most recent system message. With two
  system messages in the history the code keeps the older one, and the newer one is
  evicted. So it is on a session made by \<^verbatim>\<open>getUserSession\<close>, whose history starts with
  the seeded system message: of the four appended messages of the example, the system
  message "seed" is evicted and the seeded message of the creation stays.
\<close>

theorem addMessage_retention_counterexample:
  "map_option history
     (sessionOf (snd (addMessage (cfgH 3) (envAt 9) 7 (msg User ''d'')
        (stateWith [(7, sessionWith 7 [msg System ''a'', msg System ''b'', msg User ''c''] 0)]))) 7)
     = Some [msg System ''a'', msg User ''c'', msg User ''d'']
   \<and> retentionPolicy_spec 3 ([msg System ''a'', msg System ''b'', msg User ''c''] @ [msg User ''d''])
     = [msg System ''b'', msg User ''c'', msg User ''d'']
   \<and> msg System ''b'' \<notin> set [msg System ''a'', msg User ''c'', msg User ''d'']
   \<and> map_option history
        (sessionOf
           (addMessages (cfgH 3) 7
              [(envAt 1, msg System ''seed''), (envAt 2, msg User ''hi''),
               (envAt 3, msg Assistant ''hello''), (envAt 4, msg User ''bye'')]
              (snd (getUserSession (envAt 0) 7 7 None (stateWith [])))) 7)
     = Some [seedMessage 0, msg Assistant ''hello'', msg User ''bye'']"
  by (simp add: example_defs addMessage_def getUserSession_def newSession_def
        ensureInitialized_def save_def sessionOf_def trimHistory_def slice_def Let_def
        retentionPolicy_spec_def takeLast_def isSystem_def seedMessage_def)

subsection \<open>Operations on a user without a session\<close>

text \<open>
  C10. When the store holds no session for the user, \<^verbatim>\<open>addMessage\<close> throws and the state
  after the call is the state before it: no message is stored, no counter and no
  \<open>lastActivity\<close> changes, the file is not written. The error is the one of
  \<^verbatim>\<open>ensureInitialized\<close> when the manager is not initialised, and "User session not found"
  otherwise.
\<close>

theorem addMessage_absent_atomic:
  assumes "sessionOf st uid = None"
  shows "addMessage cfg env uid m st =
           (Inl (if isInitialized st \<and> data st \<noteq> None then UserSessionNotFound
                 else NotInitialized), st)"
  using assms
  by (auto simp: addMessage_def ensureInitialized_def sessionOf_def split: option.splits)

text \<open>An instance: the store holds user 7 only, and the message is for user 8.\<close>

theorem addMessage_absent_atomic_witness:
  "sessionOf (stateWith [(7, sessionWith 7 [] 0)]) 8 = None
   \<and> addMessage (cfgH 3) (envAt 9) 8 (msg User ''hi'') (stateWith [(7, sessionWith 7 [] 0)])
       = (Inl UserSessionNotFound, stateWith [(7, sessionWith 7 [] 0)])"
  using addMessage_absent_atomic [of "stateWith [(7, sessionWith 7 [] 0)]" 8
      "cfgH 3" "envAt 9" "msg User ''hi''"]
  by (simp add: sessionOf_def stateWith_def)

text \<open>
  C8. On an initialised manager and a user without a session: \<^verbatim>\<open>addMessage\<close> throws,
  \<^verbatim>\<open>getHistory\<close> returns the empty array, \<^verbatim>\<open>getUserMemory\<close> returns \<^verbatim>\<open>null\<close>, and
  \<^verbatim>\<open>clearHistory\<close> and \<^verbatim>\<open>updateUserMemory\<close> return normally; none of them changes the
  state.
\<close>

theorem absent_session_outcomes:
  assumes "ensureInitialized st = Inr d" and "fmlookup (users d) uid = None"
  shows "addMessage cfg env uid m st = (Inl UserSessionNotFound, st)
       \<and> getHistory uid st = (Inr [], st)
       \<and> getUserMemory uid st = (Inr None, st)
       \<and> clearHistory env uid st = (Inr (), st)
       \<and> updateUserMemory env uid p st = (Inr (), st)"
  using assms
  by (simp add: addMessage_def getHistory_def getUserMemory_def clearHistory_def
        updateUserMemory_def)

text \<open>An instance: the empty store and user 8.\<close>

theorem absent_session_outcomes_witness:
  "ensureInitialized (stateWith []) = Inr (emptyDatabase 0)
   \<and> fmlookup (users (emptyDatabase 0)) 8 = None
   \<and> addMessage (cfgH 3) (envAt 9) 8 (msg User ''hi'') (stateWith []) = (Inl UserSessionNotFound, stateWith [])
   \<and> getHistory 8 (stateWith []) = (Inr [], stateWith [])
   \<and> getUserMemory 8 (stateWith []) = (Inr None, stateWith [])
   \<and> clearHistory (envAt 9) 8 (stateWith []) = (Inr (), stateWith [])
   \<and> updateUserMemory (envAt 9) 8
        \<lparr>p_interests = None, p_preferences = None, p_goals = Some [''rest''],
         p_communicationStyle = None\<rparr> (stateWith []) = (Inr (), stateWith [])"
proof -
  have h1: "ensureInitialized (stateWith []) = Inr (emptyDatabase 0)"
    by (simp add: ensureInitialized_def stateWith_def emptyDatabase_def)
  have h2: "fmlookup (users (emptyDatabase 0)) 8 = None"
    by (simp add: emptyDatabase_def)
  show ?thesis
    using h1 h2 absent_session_outcomes [OF h1 h2, of "cfgH 3" "envAt 9" "msg User ''hi''"
      "\<lparr>p_interests = None, p_preferences = None, p_goals = Some [''rest''],
         p_communicationStyle = None\<rparr>"]
    by simp
qed

subsection \<open>Memory profile\<close>

lemma updateUserMemory_session:
  assumes "ensureInitialized st = Inr d" and "fmlookup (users d) uid = Some user"
  shows "sessionOf (snd (updateUserMemory env uid p st)) uid =
           Some (user\<lparr>userMemory := mergeMemory (userMemory user) p\<rparr>)"
  using assms by (simp add: updateUserMemory_def save_def sessionOf_def Let_def)

lemma updateUserMemory_others:
  assumes "ensureInitialized st = Inr d" and "fmlookup (users d) uid = Some user" and "uid' \<noteq> uid"
  shows "sessionOf (snd (updateUserMemory env uid p st)) uid' = sessionOf st uid'"
  using assms
  by (auto simp: updateUserMemory_def save_def sessionOf_def Let_def ensureInitialized_def
        split: option.splits if_splits)

text \<open>
  C6. \<^verbatim>\<open>updateUserMemory\<close> on an existing session merges shallowly: a field that the
  partial provides replaces the field of the profile as a whole, a field that it omits
  keeps its value, and nothing else of the session changes. An update of \<open>goals\<close>
  alone leaves \<open>interests\<close>, \<open>communicationStyle\<close> and \<open>preferences\<close> as they
  were.
\<close>

theorem updateUserMemory_shallow_merge:
  assumes "ensureInitialized st = Inr d" and "fmlookup (users d) uid = Some user"
  shows "\<exists>user'. sessionOf (snd (updateUserMemory env uid p st)) uid = Some user'
           \<and> user' = user\<lparr>userMemory := userMemory user'\<rparr>
           \<and> interests (userMemory user') =
               (case p_interests p of Some v \<Rightarrow> v | None \<Rightarrow> interests (userMemory user))
           \<and> preferences (userMemory user') =
               (case p_preferences p of Some v \<Rightarrow> v | None \<Rightarrow> preferences (userMemory user))
           \<and> goals (userMemory user') =
               (case p_goals p of Some v \<Rightarrow> v | None \<Rightarrow> goals (userMemory user))
           \<and> communicationStyle (userMemory user') =
               (case p_communicationStyle p of Some v \<Rightarrow> v
                | None \<Rightarrow> communicationStyle (userMemory user))
           \<and> (p_interests p = None \<and> p_preferences p = None \<and> p_communicationStyle p = None
                \<longrightarrow> interests (userMemory user') = interests (userMemory user)
                  \<and> communicationStyle (userMemory user') = communicationStyle (userMemory user)
                  \<and> preferences (userMemory user') = preferences (userMemory user))"
  using updateUserMemory_session [OF assms, of env p]
  by (simp add: mergeMemory_def)

text \<open>An instance: only \<open>goals\<close> is provided, on the default profile.\<close>

theorem updateUserMemory_shallow_merge_witness:
  "ensureInitialized (stateWith [(7, sessionWith 7 [] 0)])
     = Inr \<lparr>users = fmap_of_list [(7, sessionWith 7 [] 0)],
            statistics = \<lparr>totalUsers = 0, totalMessages = 0, lastReset = 0\<rparr>\<rparr>
   \<and> (\<exists>user'. sessionOf (snd (updateUserMemory (envAt 9) 7
          \<lparr>p_interests = None, p_preferences = None, p_goals = Some [''rest''],
           p_communicationStyle = None\<rparr> (stateWith [(7, sessionWith 7 [] 0)]))) 7 = Some user'
        \<and> goals (userMemory user') = [''rest'']
        \<and> interests (userMemory user') = interests defaultMemory
        \<and> communicationStyle (userMemory user') = ''therapeutic_support''
        \<and> preferences (userMemory user') = preferences defaultMemory)"
proof -
  let ?d = "\<lparr>users = fmap_of_list [(7, sessionWith 7 [] 0)],
             statistics = \<lparr>totalUsers = 0, totalMessages = 0, lastReset = 0\<rparr>\<rparr>"
  have h1: "ensureInitialized (stateWith [(7, sessionWith 7 [] 0)]) = Inr ?d"
    by (simp add: ensureInitialized_def stateWith_def)
  have h2: "fmlookup (users ?d) 7 = Some (sessionWith 7 [] 0)"
    by simp
  show ?thesis
    using h1 updateUserMemory_shallow_merge [OF h1 h2, of "envAt 9"
      "\<lparr>p_interests = None, p_preferences = None, p_goals = Some [''rest''],
           p_communicationStyle = None\<rparr>"]
    by (auto simp: sessionWith_def defaultMemory_def)
qed

subsection \<open>The timestamp of the last activity\<close>

lemma getUserSession_existing_session:
  assumes "ensureInitialized st = Inr d" and "fmlookup (users d) uid = Some user"
  shows "sessionOf (snd (getUserSession env chat uid userInfo st)) uid =
           Some (user\<lparr>lastActivity := clock env 0\<rparr>)"
  using assms
  by (simp add: getUserSession_def save_def sessionOf_def Let_def)

lemma clearHistory_session:
  assumes "ensureInitialized st = Inr d" and "fmlookup (users d) uid = Some user"
  shows "sessionOf (snd (clearHistory env uid st)) uid =
           Some (user\<lparr>history := [seedMessage (clock env 0)]\<rparr>)"
  using assms by (simp add: clearHistory_def save_def sessionOf_def Let_def)

text \<open>
  C4 (as amended). On an existing session, \<^verbatim>\<open>getUserSession\<close> and \<^verbatim>\<open>addMessage\<close> set
  \<open>lastActivity\<close> to the current time; \<^verbatim>\<open>clearHistory\<close> and \<^verbatim>\<open>updateUserMemory\<close> leave
  \<open>lastActivity\<close> as it was, and the reads \<^verbatim>\<open>getHistory\<close> and \<^verbatim>\<open>getUserMemory\<close> leave
  the whole state as it was.
\<close>

theorem lastActivity_touch:
  assumes "ensureInitialized st = Inr d" and "fmlookup (users d) uid = Some user"
  shows "map_option lastActivity (sessionOf (snd (getUserSession env chat uid userInfo st)) uid)
           = Some (clock env 0)
       \<and> map_option lastActivity (sessionOf (snd (addMessage cfg env uid m st)) uid)
           = Some (clock env 0)
       \<and> map_option lastActivity (sessionOf (snd (clearHistory env uid st)) uid)
           = Some (lastActivity user)
       \<and> map_option lastActivity (sessionOf (snd (updateUserMemory env uid p st)) uid)
           = Some (lastActivity user)
       \<and> getHistory uid st = (Inr (history user), st)
       \<and> getUserMemory uid st = (Inr (Some (userMemory user)), st)"
  using assms
  by (simp add: getUserSession_existing_session addMessage_session clearHistory_session
        updateUserMemory_session getHistory_def getUserMemory_def)

text \<open>An instance: a session last active at time 5, touched at time 1000.\<close>

theorem lastActivity_touch_witness:
  "ensureInitialized (stateWith [(7, sessionWith 7 [] 5)])
     = Inr \<lparr>users = fmap_of_list [(7, sessionWith 7 [] 5)],
            statistics = \<lparr>totalUsers = 0, totalMessages = 0, lastReset = 0\<rparr>\<rparr>
   \<and> map_option lastActivity
        (sessionOf (snd (getUserSession (envAt 1000) 7 7 None (stateWith [(7, sessionWith 7 [] 5)]))) 7)
        = Some 1000
   \<and> map_option lastActivity
        (sessionOf (snd (addMessage (cfgH 3) (envAt 1000) 7 (msg User ''hi'')
           (stateWith [(7, sessionWith 7 [] 5)]))) 7) = Some 1000
   \<and> map_option lastActivity
        (sessionOf (snd (clearHistory (envAt 1000) 7 (stateWith [(7, sessionWith 7 [] 5)]))) 7)
        = Some 5"
proof -
  let ?d = "\<lparr>users = fmap_of_list [(7, sessionWith 7 [] 5)],
             statistics = \<lparr>totalUsers = 0, totalMessages = 0, lastReset = 0\<rparr>\<rparr>"
  have h1: "ensureInitialized (stateWith [(7, sessionWith 7 [] 5)]) = Inr ?d"
    by (simp add: ensureInitialized_def stateWith_def)
  have h2: "fmlookup (users ?d) 7 = Some (sessionWith 7 [] 5)"
    by simp
  show ?thesis
    using h1 lastActivity_touch [OF h1 h2, of "envAt 1000" 7 None "cfgH 3" "msg User ''hi''"]
    by (simp add: sessionWith_def envAt_def)
qed

text \<open>
  A session last active at time 5 is still last active at time 5 after
  \<^verbatim>\<open>clearHistory\<close>, \<^verbatim>\<open>updateUserMemory\<close>, \<^verbatim>\<open>getHistory\<close> or \<^verbatim>\<open>getUserMemory\<close> at time
  1000: these operations do not update the timestamp.
\<close>

theorem lastActivity_touch_counterexample:
  "map_option lastActivity (sessionOf (stateWith [(7, sessionWith 7 [] 5)]) 7) = Some 5
   \<and> map_option lastActivity
        (sessionOf (snd (clearHistory (envAt 1000) 7 (stateWith [(7, sessionWith 7 [] 5)]))) 7)
        = Some 5
   \<and> map_option lastActivity
        (sessionOf (snd (updateUserMemory (envAt 1000) 7
           \<lparr>p_interests = None, p_preferences = None, p_goals = Some [''rest''],
            p_communicationStyle = None\<rparr> (stateWith [(7, sessionWith 7 [] 5)]))) 7)
        = Some 5
   \<and> map_option lastActivity
        (sessionOf (snd (getHistory 7 (stateWith [(7, sessionWith 7 [] 5)]))) 7) = Some 5
   \<and> map_option lastActivity
        (sessionOf (snd (getUserMemory 7 (stateWith [(7, sessionWith 7 [] 5)]))) 7) = Some 5
   \<and> clock (envAt 1000) 0 \<noteq> 5"
  by (simp add: example_defs clearHistory_def updateUserMemory_def getHistory_def
        getUserMemory_def ensureInitialized_def save_def sessionOf_def Let_def)

subsection \<open>Creation of a session\<close>

text \<open>
  C5. Two calls of \<^verbatim>\<open>getUserSession\<close> in a row for a user without a session: after
  the first call the store holds the new session under the user's key and
  \<open>totalUsers\<close> is one more; after the second call the store differs from that only in
  the \<open>lastActivity\<close> of this session, so one session was created and \<open>totalUsers\<close>
  is one more in total. When the file is written, the second call returns the session
  of the first with \<open>lastActivity\<close> refreshed.
\<close>

theorem getUserSession_twice:
  assumes "ensureInitialized st = Inr d" and "fmlookup (users d) uid = None"
  shows "data (snd (getUserSession env2 chat2 uid info2
                 (snd (getUserSession env1 chat1 uid info1 st))))
           = Some (d\<lparr>users := fmupd uid ((newSession env1 chat1 uid info1)
                                            \<lparr>lastActivity := clock env2 0\<rparr>) (users d),
                     statistics := (statistics d)
                        \<lparr>totalUsers := totalUsers (statistics d) + 1\<rparr>\<rparr>)
       \<and> data (snd (getUserSession env1 chat1 uid info1 st))
           = Some (d\<lparr>users := fmupd uid (newSession env1 chat1 uid info1) (users d),
                     statistics := (statistics d)
                        \<lparr>totalUsers := totalUsers (statistics d) + 1\<rparr>\<rparr>)
       \<and> (write_ok env1 \<longrightarrow>
            fst (getUserSession env1 chat1 uid info1 st) = Inr (newSession env1 chat1 uid info1))
       \<and> (write_ok env2 \<longrightarrow>
            fst (getUserSession env2 chat2 uid info2 (snd (getUserSession env1 chat1 uid info1 st)))
              = Inr ((newSession env1 chat1 uid info1)\<lparr>lastActivity := clock env2 0\<rparr>))"
proof -
  let ?s = "newSession env1 chat1 uid info1"
  let ?d1 = "d\<lparr>users := fmupd uid ?s (users d),
               statistics := (statistics d)\<lparr>totalUsers := totalUsers (statistics d) + 1\<rparr>\<rparr>"
  let ?st1 = "snd (getUserSession env1 chat1 uid info1 st)"
  have init: "isInitialized st" "data st = Some d"
    using assms(1) by (auto simp: ensureInitialized_def split: option.splits if_splits)
  have first: "data ?st1 = Some ?d1" "isInitialized ?st1"
    using assms init by (simp_all add: getUserSession_def save_def Let_def)
  have r1: "write_ok env1 \<longrightarrow> fst (getUserSession env1 chat1 uid info1 st) = Inr ?s"
    using assms by (simp add: getUserSession_def save_def Let_def)
  have e1: "ensureInitialized ?st1 = Inr ?d1"
    using first by (simp add: ensureInitialized_def)
  have l1: "fmlookup (users ?d1) uid = Some ?s"
    by simp
  have second: "data (snd (getUserSession env2 chat2 uid info2 ?st1))
      = Some (?d1\<lparr>users := fmupd uid (?s\<lparr>lastActivity := clock env2 0\<rparr>) (users ?d1)\<rparr>)"
    using e1 l1 by (simp add: getUserSession_def save_def Let_def)
  have r2: "write_ok env2 \<longrightarrow> fst (getUserSession env2 chat2 uid info2 ?st1)
      = Inr (?s\<lparr>lastActivity := clock env2 0\<rparr>)"
    using e1 l1 by (simp add: getUserSession_def save_def Let_def)
  from second have "data (snd (getUserSession env2 chat2 uid info2 ?st1))
      = Some (d\<lparr>users := fmupd uid (?s\<lparr>lastActivity := clock env2 0\<rparr>) (users d),
                statistics := (statistics d)\<lparr>totalUsers := totalUsers (statistics d) + 1\<rparr>\<rparr>)"
    by simp
  with first(1) r1 r2 show ?thesis
    by blast
qed

text \<open>An instance: user 7 on the empty store, at times 10 and 20.\<close>

theorem getUserSession_twice_witness:
  "ensureInitialized (stateWith []) = Inr (emptyDatabase 0)
   \<and> fmlookup (users (emptyDatabase 0)) 7 = None
   \<and> map_option (\<lambda>d. (totalUsers (statistics d), fmdom (users d)))
        (data (snd (getUserSession (envAt 20) 7 7 None
                 (snd (getUserSession (envAt 10) 7 7 None (stateWith []))))))
        = Some (1, {|7|})
   \<and> fst (getUserSession (envAt 20) 7 7 None
                 (snd (getUserSession (envAt 10) 7 7 None (stateWith []))))
        = Inr ((newSession (envAt 10) 7 7 None)\<lparr>lastActivity := 20\<rparr>)"
proof -
  have h1: "ensureInitialized (stateWith []) = Inr (emptyDatabase 0)"
    by (simp add: ensureInitialized_def stateWith_def emptyDatabase_def)
  have h2: "fmlookup (users (emptyDatabase 0)) 7 = None"
    by (simp add: emptyDatabase_def)
  show ?thesis
    using h1 h2 getUserSession_twice [OF h1 h2, of "envAt 20" 7 None "envAt 10" 7 None]
    by (simp add: emptyDatabase_def envAt_def)
qed

subsection \<open>Sweep of inactive sessions\<close>

lemma set_entries: "set (entries m) = {(k, v). fmlookup m k = Some v}"
  by (auto simp: entries_def fmlookup_dom_iff split: option.splits)

lemma set_inactiveUserIds:
  "set (inactiveUserIds cutoffTime us) =
     {k. \<exists>u. fmlookup us k = Some u \<and> lastActivity u < cutoffTime}"
  by (force simp: inactiveUserIds_def set_entries)

lemma fmlookup_fold_fmdrop:
  "fmlookup (fold fmdrop ks m) k = (if k \<in> set ks then None else fmlookup m k)"
  by (induction ks arbitrary: m) auto

lemma initialized_data:
  "ensureInitialized st = Inr d \<Longrightarrow> data st = Some d \<and> isInitialized st"
  by (auto simp: ensureInitialized_def split: option.splits if_splits)

lemma cleanupInactiveUsers_data:
  assumes "ensureInitialized st = Inr d"
  shows "data (snd (cleanupInactiveUsers env daysInactive st)) =
           Some (d\<lparr>users := fold fmdrop
              (inactiveUserIds (clock env 0 - daysInactive * 24 * 60 * 60 * 1000) (users d))
              (users d)\<rparr>)"
  using assms by (simp add: cleanupInactiveUsers_def save_def Let_def)

lemma cleanupInactiveUsers_session:
  assumes "ensureInitialized st = Inr d"
  shows "sessionOf (snd (cleanupInactiveUsers env daysInactive st)) uid =
           (case fmlookup (users d) uid of
              None \<Rightarrow> None
            | Some u \<Rightarrow>
                if lastActivity u < clock env 0 - daysInactive * 24 * 60 * 60 * 1000
                then None else Some u)"
  by (auto simp: sessionOf_def cleanupInactiveUsers_data [OF assms] fmlookup_fold_fmdrop
        set_inactiveUserIds split: option.splits)

lemma cleanupInactiveUsers_nothing:
  assumes "ensureInitialized st = Inr d"
    and "inactiveUserIds (clock env 0 - daysInactive * 24 * 60 * 60 * 1000) (users d) = []"
  shows "cleanupInactiveUsers env daysInactive st = (Inr (), st)"
  using assms initialized_data [OF assms(1)]
  by (simp add: cleanupInactiveUsers_def Let_def)

lemma cleanupInactiveUsers_some:
  assumes "ensureInitialized st = Inr d"
    and "inactiveUserIds (clock env 0 - daysInactive * 24 * 60 * 60 * 1000) (users d) \<noteq> []"
  shows "writeCalls (snd (cleanupInactiveUsers env daysInactive st)) = Suc (writeCalls st)"
    and "write_ok env \<Longrightarrow> dbFile (snd (cleanupInactiveUsers env daysInactive st))
           = data (snd (cleanupInactiveUsers env daysInactive st))"
  using assms by (simp_all add: cleanupInactiveUsers_def save_def Let_def)

text \<open>
  C3. With \<open>D\<close> the threshold in milliseconds (\<open>daysInactive * 24 * 60 * 60 * 1000\<close>),
  \<^verbatim>\<open>cleanupInactiveUsers\<close> deletes exactly the sessions whose \<open>lastActivity\<close> is less than
  \<open>now - D\<close>: a session last active at \<open>T\<close> survives the sweep at \<open>T + D - 1\<close> and is
  deleted by the sweep at \<open>T + D + 1\<close>. The statistics, \<open>totalUsers\<close> among them, are
  unchanged. When no session qualifies, the call changes nothing and writes nothing; when
  one does, the file is written once.
\<close>

theorem cleanupInactiveUsers_sweep:
  assumes "ensureInitialized st = Inr d"
  shows "(\<forall>uid. sessionOf (snd (cleanupInactiveUsers env daysInactive st)) uid =
            (case fmlookup (users d) uid of
               None \<Rightarrow> None
             | Some u \<Rightarrow>
                 if lastActivity u < clock env 0 - daysInactive * 24 * 60 * 60 * 1000
                 then None else Some u))
       \<and> (\<forall>uid u. fmlookup (users d) uid = Some u \<longrightarrow>
            (clock env 0 = lastActivity u + daysInactive * 24 * 60 * 60 * 1000 - 1 \<longrightarrow>
               sessionOf (snd (cleanupInactiveUsers env daysInactive st)) uid = Some u) \<and>
            (clock env 0 = lastActivity u + daysInactive * 24 * 60 * 60 * 1000 + 1 \<longrightarrow>
               sessionOf (snd (cleanupInactiveUsers env daysInactive st)) uid = None))
       \<and> map_option statistics (data (snd (cleanupInactiveUsers env daysInactive st)))
            = Some (statistics d)
       \<and> ((\<forall>uid u. fmlookup (users d) uid = Some u \<longrightarrow>
              \<not> lastActivity u < clock env 0 - daysInactive * 24 * 60 * 60 * 1000) \<longrightarrow>
            cleanupInactiveUsers env daysInactive st = (Inr (), st))
       \<and> ((\<exists>uid u. fmlookup (users d) uid = Some u \<and>
              lastActivity u < clock env 0 - daysInactive * 24 * 60 * 60 * 1000) \<longrightarrow>
            writeCalls (snd (cleanupInactiveUsers env daysInactive st)) = Suc (writeCalls st))"
proof -
  let ?cut = "clock env 0 - daysInactive * 24 * 60 * 60 * 1000"
  let ?ids = "inactiveUserIds ?cut (users d)"
  note look = cleanupInactiveUsers_session [OF assms, of env daysInactive]
  have a: "\<forall>uid. sessionOf (snd (cleanupInactiveUsers env daysInactive st)) uid =
            (case fmlookup (users d) uid of
               None \<Rightarrow> None
             | Some u \<Rightarrow> if lastActivity u < ?cut then None else Some u)"
    using look by blast
  have b: "\<forall>uid u. fmlookup (users d) uid = Some u \<longrightarrow>
            (clock env 0 = lastActivity u + daysInactive * 24 * 60 * 60 * 1000 - 1 \<longrightarrow>
               sessionOf (snd (cleanupInactiveUsers env daysInactive st)) uid = Some u) \<and>
            (clock env 0 = lastActivity u + daysInactive * 24 * 60 * 60 * 1000 + 1 \<longrightarrow>
               sessionOf (snd (cleanupInactiveUsers env daysInactive st)) uid = None)"
    by (simp add: look)
  have c: "map_option statistics (data (snd (cleanupInactiveUsers env daysInactive st)))
            = Some (statistics d)"
    by (simp add: cleanupInactiveUsers_data [OF assms])
  have d: "(\<forall>uid u. fmlookup (users d) uid = Some u \<longrightarrow> \<not> lastActivity u < ?cut) \<longrightarrow>
            cleanupInactiveUsers env daysInactive st = (Inr (), st)"
  proof
    assume "\<forall>uid u. fmlookup (users d) uid = Some u \<longrightarrow> \<not> lastActivity u < ?cut"
    then have "set ?ids = {}"
      by (auto simp: set_inactiveUserIds)
    then have "?ids = []" by simp
    with assms show "cleanupInactiveUsers env daysInactive st = (Inr (), st)"
      by (rule cleanupInactiveUsers_nothing)
  qed
  have e: "(\<exists>uid u. fmlookup (users d) uid = Some u \<and> lastActivity u < ?cut) \<longrightarrow>
            writeCalls (snd (cleanupInactiveUsers env daysInactive st)) = Suc (writeCalls st)"
  proof
    assume "\<exists>uid u. fmlookup (users d) uid = Some u \<and> lastActivity u < ?cut"
    then have "set ?ids \<noteq> {}"
      by (auto simp: set_inactiveUserIds)
    then have "?ids \<noteq> []" by auto
    with assms show "writeCalls (snd (cleanupInactiveUsers env daysInactive st)) = Suc (writeCalls st)"
      by (rule cleanupInactiveUsers_some(1))
  qed
  from a b c d e show ?thesis by blast
qed

text \<open>An instance: the threshold of 30 days, on the store with two sessions.\<close>

theorem cleanupInactiveUsers_sweep_witness:
  "ensureInitialized twoSessions =
     Inr \<lparr>users = fmap_of_list [(7, sessionWith 7 [] 100), (8, sessionWith 8 [] 5000000000)],
          statistics = \<lparr>totalUsers = 0, totalMessages = 0, lastReset = 0\<rparr>\<rparr>
   \<and> sessionOf (snd (cleanupInactiveUsers (envAt (100 + 30 * 24 * 60 * 60 * 1000 - 1)) 30 twoSessions)) 7
       = Some (sessionWith 7 [] 100)
   \<and> cleanupInactiveUsers (envAt (100 + 30 * 24 * 60 * 60 * 1000 - 1)) 30 twoSessions
       = (Inr (), twoSessions)
   \<and> sessionOf (snd (cleanupInactiveUsers (envAt (100 + 30 * 24 * 60 * 60 * 1000 + 1)) 30 twoSessions)) 7
       = None
   \<and> sessionOf (snd (cleanupInactiveUsers (envAt (100 + 30 * 24 * 60 * 60 * 1000 + 1)) 30 twoSessions)) 8
       = Some (sessionWith 8 [] 5000000000)
   \<and> writeCalls (snd (cleanupInactiveUsers (envAt (100 + 30 * 24 * 60 * 60 * 1000 + 1)) 30 twoSessions))
       = Suc (writeCalls twoSessions)
   \<and> map_option statistics
        (data (snd (cleanupInactiveUsers (envAt (100 + 30 * 24 * 60 * 60 * 1000 + 1)) 30 twoSessions)))
       = map_option statistics (data twoSessions)"
proof -
  let ?d = "\<lparr>users = fmap_of_list [(7, sessionWith 7 [] 100), (8, sessionWith 8 [] 5000000000)],
             statistics = \<lparr>totalUsers = 0, totalMessages = 0, lastReset = 0\<rparr>\<rparr>"
  let ?before = "envAt (100 + 30 * 24 * 60 * 60 * 1000 - 1)"
  let ?after = "envAt (100 + 30 * 24 * 60 * 60 * 1000 + 1)"
  have h: "ensureInitialized twoSessions = Inr ?d"
    by (simp add: ensureInitialized_def twoSessions_def stateWith_def)
  have us: "users ?d = fmupd 7 (sessionWith 7 [] 100) (fmupd 8 (sessionWith 8 [] 5000000000) fmempty)"
    by (simp add: twoSessions_def stateWith_def)
  have st: "map_option statistics (data twoSessions) = Some (statistics ?d)"
    by (simp add: twoSessions_def stateWith_def)
  note before = cleanupInactiveUsers_sweep [OF h, of ?before 30]
  note after = cleanupInactiveUsers_sweep [OF h, of ?after 30]
  have l7: "fmlookup (users ?d) 7 = Some (sessionWith 7 [] 100)"
    by (simp add: us)
  have 1: "sessionOf (snd (cleanupInactiveUsers ?before 30 twoSessions)) 7
             = Some (sessionWith 7 [] 100)"
    using before [THEN conjunct2, THEN conjunct1, rule_format, OF l7, THEN conjunct1]
    by (simp add: envAt_def sessionWith_def)
  have "\<forall>uid u. fmlookup (users ?d) uid = Some u \<longrightarrow>
          \<not> lastActivity u < clock ?before 0 - 30 * 24 * 60 * 60 * 1000"
    by (auto simp: us envAt_def sessionWith_def split: if_splits)
  then have 2: "cleanupInactiveUsers ?before 30 twoSessions = (Inr (), twoSessions)"
    using before [THEN conjunct2, THEN conjunct2, THEN conjunct2, THEN conjunct1] by blast
  have 3: "sessionOf (snd (cleanupInactiveUsers ?after 30 twoSessions)) 7 = None"
    using after [THEN conjunct2, THEN conjunct1, rule_format, OF l7, THEN conjunct2]
    by (simp add: envAt_def sessionWith_def)
  have 4: "sessionOf (snd (cleanupInactiveUsers ?after 30 twoSessions)) 8
             = Some (sessionWith 8 [] 5000000000)"
    using after [THEN conjunct1, rule_format, of 8]
    by (simp add: us envAt_def sessionWith_def)
  have "\<exists>uid u. fmlookup (users ?d) uid = Some u \<and>
          lastActivity u < clock ?after 0 - 30 * 24 * 60 * 60 * 1000"
    by (rule exI [of _ 7], rule exI [of _ "sessionWith 7 [] 100"])
       (simp add: us envAt_def sessionWith_def)
  then have 5: "writeCalls (snd (cleanupInactiveUsers ?after 30 twoSessions))
      = Suc (writeCalls twoSessions)"
    using after [THEN conjunct2, THEN conjunct2, THEN conjunct2, THEN conjunct2] by blast
  have 6: "map_option statistics (data (snd (cleanupInactiveUsers ?after 30 twoSessions)))
      = map_option statistics (data twoSessions)"
    using after [THEN conjunct2, THEN conjunct2, THEN conjunct1] st by (simp only:)
  from h 1 2 3 4 5 6 show ?thesis by blast
qed

subsection \<open>The counters of the statistics\<close>

lemma fmdom_fold_fmdrop: "fmdom (fold fmdrop ks m) |\<subseteq>| fmdom m"
  by (auto simp: fmlookup_dom_iff fmlookup_fold_fmdrop split: if_splits)

lemma fcard_new_key: "uid |\<notin>| A \<Longrightarrow> fcard (finsert uid A |-| A) = 1"
proof -
  assume "uid |\<notin>| A"
  then have "finsert uid A |-| A = {|uid|}" by auto
  then show ?thesis by (simp add: fcard_finsert_disjoint fcard_fempty)
qed

lemma fcard_no_new_key: "B |\<subseteq>| A \<Longrightarrow> fcard (B |-| A) = 0"
proof -
  assume "B |\<subseteq>| A"
  then have "B |-| A = {||}" by auto
  then show ?thesis by simp
qed

lemma step_uninitialized:
  "ensureInitialized st = Inl e \<Longrightarrow> step cfg env c st = (Some e, st)"
  by (cases c) (simp_all add: getUserSession_def addMessage_def getHistory_def clearHistory_def
        updateUserMemory_def getUserMemory_def getStatistics_def cleanupInactiveUsers_def
        thrown_def)

lemma ensureInitialized_Inl: "ensureInitialized st = Inl e \<Longrightarrow> e = NotInitialized"
  by (auto simp: ensureInitialized_def split: option.splits if_splits)

lemma created_cases:
  assumes "ensureInitialized st = Inr d"
  shows "created cfg env c st =
           (case c of
              GetUserSession chat uid userInfo \<Rightarrow>
                (if fmlookup (users d) uid = None then 1 else 0)
            | _ \<Rightarrow> 0)"
proof -
  note init = initialized_data [OF assms]
  show ?thesis
  proof (cases c)
    case (GetUserSession chat uid userInfo)
    show ?thesis
    proof (cases "fmlookup (users d) uid")
      case None
      then have "uid |\<notin>| fmdom (users d)"
        by (simp add: fmdom_notI)
      then have "fcard (finsert uid (fmdom (users d)) |-| fmdom (users d)) = 1"
        by (rule fcard_new_key)
      with None assms init GetUserSession show ?thesis
        by (simp add: created_def userIds_def getUserSession_def thrown_def save_def Let_def)
    next
      case (Some u)
      then have "finsert uid (fmdom (users d)) = fmdom (users d)"
        by (auto simp: fmlookup_dom_iff)
      with Some assms init GetUserSession show ?thesis
        by (simp add: created_def userIds_def getUserSession_def thrown_def save_def Let_def)
    qed
  next
    case (AddMessage uid m)
    with assms init show ?thesis
      by (cases "fmlookup (users d) uid")
         (auto simp: created_def userIds_def addMessage_def thrown_def save_def Let_def
            fmlookup_dom_iff intro!: fcard_no_new_key)
  next
    case (GetHistory uid)
    with assms init show ?thesis
      by (cases "fmlookup (users d) uid")
         (simp_all add: created_def userIds_def getHistory_def thrown_def)
  next
    case (ClearHistory uid)
    with assms init show ?thesis
      by (cases "fmlookup (users d) uid")
         (auto simp: created_def userIds_def clearHistory_def thrown_def save_def Let_def
            fmlookup_dom_iff intro!: fcard_no_new_key)
  next
    case (UpdateUserMemory uid p)
    with assms init show ?thesis
      by (cases "fmlookup (users d) uid")
         (auto simp: created_def userIds_def updateUserMemory_def thrown_def save_def Let_def
            fmlookup_dom_iff intro!: fcard_no_new_key)
  next
    case (GetUserMemory uid)
    with assms init show ?thesis
      by (cases "fmlookup (users d) uid")
         (simp_all add: created_def userIds_def getUserMemory_def thrown_def)
  next
    case GetStatistics
    with assms init show ?thesis
      by (simp add: created_def userIds_def getStatistics_def thrown_def)
  next
    case (CleanupInactiveUsers days)
    have "userIds (snd (cleanupInactiveUsers env days st)) |\<subseteq>| fmdom (users d)"
      by (simp add: userIds_def cleanupInactiveUsers_data [OF assms] fmdom_fold_fmdrop)
    then have "fcard (userIds (snd (cleanupInactiveUsers env days st)) |-| fmdom (users d)) = 0"
      by (rule fcard_no_new_key)
    with init CleanupInactiveUsers show ?thesis
      by (simp add: created_def thrown_def userIds_def)
  qed
qed

lemma step_totalUsers:
  "totalUsersOf (snd (step cfg env c st)) = totalUsersOf st + int (created cfg env c st)"
proof (cases "ensureInitialized st")
  case (Inl e)
  then show ?thesis
    by (simp add: step_uninitialized created_def)
next
  case (Inr d)
  note init = initialized_data [OF Inr]
  show ?thesis
  proof (cases c)
    case (GetUserSession chat uid userInfo)
    with Inr init show ?thesis
      by (cases "fmlookup (users d) uid")
         (simp_all add: created_cases [OF Inr] totalUsersOf_def getUserSession_def thrown_def
            save_def Let_def)
  next
    case (AddMessage uid m)
    with Inr init show ?thesis
      by (cases "fmlookup (users d) uid")
         (simp_all add: created_cases [OF Inr] totalUsersOf_def addMessage_def thrown_def
            save_def Let_def)
  next
    case (GetHistory uid)
    with Inr init show ?thesis
      by (cases "fmlookup (users d) uid")
         (simp_all add: created_cases [OF Inr] totalUsersOf_def getHistory_def thrown_def)
  next
    case (ClearHistory uid)
    with Inr init show ?thesis
      by (cases "fmlookup (users d) uid")
         (simp_all add: created_cases [OF Inr] totalUsersOf_def clearHistory_def thrown_def
            save_def Let_def)
  next
    case (UpdateUserMemory uid p)
    with Inr init show ?thesis
      by (cases "fmlookup (users d) uid")
         (simp_all add: created_cases [OF Inr] totalUsersOf_def updateUserMemory_def thrown_def
            save_def Let_def)
  next
    case (GetUserMemory uid)
    with Inr init show ?thesis
      by (cases "fmlookup (users d) uid")
         (simp_all add: created_cases [OF Inr] totalUsersOf_def getUserMemory_def thrown_def)
  next
    case GetStatistics
    with Inr init show ?thesis
      by (simp add: created_cases [OF Inr] totalUsersOf_def getStatistics_def thrown_def)
  next
    case (CleanupInactiveUsers days)
    with Inr init show ?thesis
      by (simp add: created_cases [OF Inr] totalUsersOf_def thrown_def
            cleanupInactiveUsers_data [OF Inr])
  qed
qed

lemma step_totalMessages:
  "totalMessagesOf (snd (step cfg env c st)) =
     totalMessagesOf st + int (appended cfg env c st) + int (appendedUnsaved cfg env c st)"
proof (cases "ensureInitialized st")
  case (Inl e)
  then show ?thesis
    using ensureInitialized_Inl [OF Inl]
    by (simp add: step_uninitialized appended_def appendedUnsaved_def)
next
  case (Inr d)
  note init = initialized_data [OF Inr]
  show ?thesis
  proof (cases c)
    case (GetUserSession chat uid userInfo)
    with Inr init show ?thesis
      by (cases "fmlookup (users d) uid")
         (simp_all add: appended_def appendedUnsaved_def totalMessagesOf_def getUserSession_def
            thrown_def save_def Let_def)
  next
    case (AddMessage uid m)
    with Inr init show ?thesis
      by (cases "fmlookup (users d) uid")
         (simp_all add: appended_def appendedUnsaved_def totalMessagesOf_def addMessage_def
            thrown_def save_def Let_def)
  next
    case (GetHistory uid)
    with Inr init show ?thesis
      by (cases "fmlookup (users d) uid")
         (simp_all add: appended_def appendedUnsaved_def totalMessagesOf_def getHistory_def
            thrown_def)
  next
    case (ClearHistory uid)
    with Inr init show ?thesis
      by (cases "fmlookup (users d) uid")
         (simp_all add: appended_def appendedUnsaved_def totalMessagesOf_def clearHistory_def
            thrown_def save_def Let_def)
  next
    case (UpdateUserMemory uid p)
    with Inr init show ?thesis
      by (cases "fmlookup (users d) uid")
         (simp_all add: appended_def appendedUnsaved_def totalMessagesOf_def
            updateUserMemory_def thrown_def save_def Let_def)
  next
    case (GetUserMemory uid)
    with Inr init show ?thesis
      by (cases "fmlookup (users d) uid")
         (simp_all add: appended_def appendedUnsaved_def totalMessagesOf_def getUserMemory_def
            thrown_def)
  next
    case GetStatistics
    with Inr init show ?thesis
      by (simp add: appended_def appendedUnsaved_def totalMessagesOf_def getStatistics_def
            thrown_def)
  next
    case (CleanupInactiveUsers days)
    with Inr init show ?thesis
      by (simp add: appended_def appendedUnsaved_def totalMessagesOf_def thrown_def
            cleanupInactiveUsers_data [OF Inr])
  qed
qed

lemma run_totalUsers:
  "totalUsersOf (run cfg ops st) = totalUsersOf st + int (countRun created cfg ops st)"
proof (induction ops arbitrary: st)
  case Nil
  show ?case by simp
next
  case (Cons a ops)
  obtain env c where a: "a = (env, c)" by (cases a)
  show ?case
    by (simp add: a Cons.IH step_totalUsers)
qed

lemma run_totalMessages:
  "totalMessagesOf (run cfg ops st) =
     totalMessagesOf st + int (countRun appended cfg ops st)
       + int (countRun appendedUnsaved cfg ops st)"
proof (induction ops arbitrary: st)
  case Nil
  show ?case by simp
next
  case (Cons a ops)
  obtain env c where a: "a = (env, c)" by (cases a)
  show ?case
    by (simp add: a Cons.IH step_totalMessages)
qed

lemma initialize_fresh:
  "totalUsersOf (snd (initialize env freshManager)) = 0"
  "totalMessagesOf (snd (initialize env freshManager)) = 0"
  by (simp_all add: initialize_def freshManager_def save_def emptyDatabase_def
        totalUsersOf_def totalMessagesOf_def)

text \<open>
  C7. Over every run of the manager from every state, \<open>totalUsers\<close> grows by the number
  of sessions created during the run (deletions by the sweep do not lower it), and
  \<open>totalMessages\<close> grows by the number of calls of \<^verbatim>\<open>addMessage\<close> that stored their message:
  those that returned normally and those that threw only at the write of the file. Both
  counters are non-decreasing. On a store initialised without a file, \<open>totalUsers\<close> is
  the number of sessions created. A call of \<^verbatim>\<open>addMessage\<close> that returns normally
  increments \<open>totalMessages\<close> by exactly one and leaves \<open>totalUsers\<close>.
\<close>

theorem statistics_counters:
  "totalUsersOf (run cfg ops st) = totalUsersOf st + int (countRun created cfg ops st)
   \<and> totalMessagesOf (run cfg ops st) =
       totalMessagesOf st + int (countRun appended cfg ops st)
         + int (countRun appendedUnsaved cfg ops st)
   \<and> totalUsersOf st \<le> totalUsersOf (run cfg ops st)
   \<and> totalMessagesOf st \<le> totalMessagesOf (run cfg ops st)
   \<and> totalUsersOf (run cfg ops (snd (initialize env0 freshManager))) =
       int (countRun created cfg ops (snd (initialize env0 freshManager)))
   \<and> (fst (addMessage cfg env uid m st) = Inr () \<longrightarrow>
        totalMessagesOf (snd (addMessage cfg env uid m st)) = totalMessagesOf st + 1
        \<and> totalUsersOf (snd (addMessage cfg env uid m st)) = totalUsersOf st)"
proof -
  have "fst (addMessage cfg env uid m st) = Inr () \<longrightarrow>
        totalMessagesOf (snd (addMessage cfg env uid m st)) = totalMessagesOf st + 1
        \<and> totalUsersOf (snd (addMessage cfg env uid m st)) = totalUsersOf st"
  proof
    assume ok: "fst (addMessage cfg env uid m st) = Inr ()"
    then have a: "appended cfg env (AddMessage uid m) st = 1"
      and b: "appendedUnsaved cfg env (AddMessage uid m) st = 0"
      by (simp_all add: appended_def appendedUnsaved_def thrown_def)
    have "ensureInitialized st \<noteq> Inl NotInitialized"
      using ok by (auto simp: addMessage_def)
    then obtain d where d: "ensureInitialized st = Inr d"
      using ensureInitialized_Inl by (cases "ensureInitialized st") auto
    have c: "created cfg env (AddMessage uid m) st = 0"
      by (simp add: created_cases [OF d])
    show "totalMessagesOf (snd (addMessage cfg env uid m st)) = totalMessagesOf st + 1
        \<and> totalUsersOf (snd (addMessage cfg env uid m st)) = totalUsersOf st"
      using step_totalMessages [of cfg env "AddMessage uid m" st]
        step_totalUsers [of cfg env "AddMessage uid m" st] a b c
      by (simp add: thrown_def)
  qed
  then show ?thesis
    by (simp add: run_totalUsers run_totalMessages initialize_fresh)
qed

lemma entries_single: "entries (fmupd k v fmempty) = [(k, v)]"
  by (simp add: entries_def sorted_list_of_fset.rep_eq)

lemma entries_empty: "entries fmempty = []"
  by (simp add: entries_def sorted_list_of_fset.rep_eq)

text \<open>An instance: the sample run; user 7 is created, swept and created again.\<close>

theorem statistics_counters_witness:
  "fst (addMessage (cfgH 3) (envAt 200) 7 (msg User ''hi'') sampleState) = Inr ()
   \<and> totalMessagesOf (snd (addMessage (cfgH 3) (envAt 200) 7 (msg User ''hi'') sampleState))
       = totalMessagesOf sampleState + 1
   \<and> totalUsersOf sampleState = 1
   \<and> totalUsersOf (run (cfgH 3) sampleRun sampleState) = 2
   \<and> totalMessagesOf (run (cfgH 3) sampleRun sampleState) = 1
   \<and> countRun created (cfgH 3) sampleRun sampleState = 1
   \<and> countRun appended (cfgH 3) sampleRun sampleState = 1
   \<and> userIds (run (cfgH 3) sampleRun sampleState) = {|7|}
   \<and> totalUsersOf (run (cfgH 3) sampleRun (snd (initialize (envAt 0) freshManager))) = 1"
  using statistics_counters [of "cfgH 3" sampleRun sampleState
      "envAt 0" "envAt 200" 7 "msg User ''hi''"]
  by (simp add: sampleRun_def sampleState_def initialize_def freshManager_def emptyDatabase_def
        getUserSession_def addMessage_def cleanupInactiveUsers_def thrown_def save_def
        ensureInitialized_def Let_def envAt_def cfgH_def msg_def newSession_def
        seedMessage_def trimHistory_def inactiveUserIds_def entries_single entries_empty
        created_def appended_def appendedUnsaved_def userIds_def totalUsersOf_def
        totalMessagesOf_def fcard_finsert_disjoint fcard_fempty)

subsection \<open>The bound on the history\<close>

lemma hd_trimHistory:
  assumes "role s = System"
  shows "\<exists>rest'. trimHistory H (s # rest) = s # rest'"
proof (cases "H < int (length (s # rest))")
  case True
  with assms show ?thesis
    by (simp add: trimHistory_def Let_def)
next
  case False
  then show ?thesis
    by (simp add: trimHistory_def)
qed

lemma addMessage_initialized:
  assumes "ensureInitialized st = Inr d" and "fmlookup (users d) uid = Some user"
  shows "\<exists>d'. ensureInitialized (snd (addMessage cfg env uid m st)) = Inr d' \<and>
           fmlookup (users d') uid =
             Some (user\<lparr>history := trimHistory (maxHistoryLength cfg) (history user @ [m]),
                        lastActivity := clock env 0\<rparr>)"
  using assms initialized_data [OF assms(1)]
  by (simp add: addMessage_def save_def ensureInitialized_def Let_def)

text \<open>
  For a maximum of at least 2 and a session whose history starts with a system message
  (as every session made by \<^verbatim>\<open>getUserSession\<close> or reset by \<^verbatim>\<open>clearHistory\<close> does),
  after every non-empty sequence of appends the history is no longer than the maximum and
  still starts with that message.
\<close>

lemma addMessages_bounded:
  assumes "2 \<le> maxHistoryLength cfg"
    and "ensureInitialized st = Inr d"
    and "fmlookup (users d) uid = Some user"
    and "history user = s # rest"
    and "role s = System"
    and "ms \<noteq> []"
  shows "\<exists>user'. sessionOf (addMessages cfg uid ms st) uid = Some user' \<and>
           int (length (history user')) \<le> maxHistoryLength cfg \<and>
           history user' ! 0 = s"
  using assms(2-)
proof (induction ms arbitrary: st d user rest)
  case Nil
  then show ?case by simp
next
  case (Cons a ms)
  obtain env m where a: "a = (env, m)" by (cases a)
  let ?h = "trimHistory (maxHistoryLength cfg) (history user @ [m])"
  let ?u = "user\<lparr>history := ?h, lastActivity := clock env 0\<rparr>"
  let ?st = "snd (addMessage cfg env uid m st)"
  obtain d' where d': "ensureInitialized ?st = Inr d'" "fmlookup (users d') uid = Some ?u"
    using addMessage_initialized [OF Cons.prems(1,2)] by blast
  obtain rest' where h: "?h = s # rest'"
    using hd_trimHistory [OF Cons.prems(4), of "maxHistoryLength cfg" "rest @ [m]"]
    by (auto simp: Cons.prems(3))
  show ?case
  proof (cases "ms = []")
    case True
    have "sessionOf ?st uid = Some ?u"
      using d' initialized_data [OF d'(1)] by (simp add: sessionOf_def)
    moreover have "int (length (history ?u)) \<le> maxHistoryLength cfg"
      using length_trimHistory [OF assms(1)] by simp
    moreover have "history ?u ! 0 = s"
      using h by simp
    ultimately show ?thesis
      using True a by auto
  next
    case False
    have "history ?u = s # rest'"
      using h by simp
    from Cons.IH [OF d' this Cons.prems(4) False] show ?thesis
      by (simp add: a)
  qed
qed

text \<open>
  C2. The bound fails for the maximum 1: \<^verbatim>\<open>slice(-maxHistoryLength + 1)\<close> is then
  \<^verbatim>\<open>slice(0)\<close>, the whole array. On a new session, whose history is the seeded system
  message, one append under the maximum 1 returns normally and leaves three messages:
  the seeded message twice and the appended one.
\<close>

theorem addMessage_cap_one:
  "map_option history
     (sessionOf (snd (addMessage (cfgH 1) (envAt 2) 7 (msg User ''a'')
        (snd (getUserSession (envAt 1) 7 7 None (snd (initialize (envAt 0) freshManager)))))) 7)
     = Some [seedMessage 1, seedMessage 1, msg User ''a'']
   \<and> fst (addMessage (cfgH 1) (envAt 2) 7 (msg User ''a'')
        (snd (getUserSession (envAt 1) 7 7 None (snd (initialize (envAt 0) freshManager)))))
     = Inr ()
   \<and> \<not> int (length [seedMessage 1, seedMessage 1, msg User ''a'']) \<le> maxHistoryLength (cfgH 1)"
  by (simp add: example_defs freshManager_def initialize_def emptyDatabase_def
        getUserSession_def newSession_def addMessage_def ensureInitialized_def save_def
        sessionOf_def trimHistory_def slice_def Let_def seedMessage_def)

subsection \<open>Prompt assembly\<close>

lemma conversationTurns_filter:
  "conversationTurns messages =
     map (\<lambda>m. \<lparr>turnRole = (if role m = User then RoleUser else RoleModel),
                  parts = [\<lparr>partText = content m\<rparr>]\<rparr>)
         (filter (\<lambda>m. role m \<noteq> System) messages)"
  by (induction messages) simp_all








end
